theory Spec2Isabelle
  imports Main "HOL-Library.FSet" "HOL-Library.Sublist"
begin

section \<open>Data model\<close>

text \<open>
  The interface \<open>Customer\<close> of \<open>CustomerTable.tsx\<close>. The field \<open>id\<close> is written
  \<open>id_c\<close> (the name \<open>id\<close> is the identity function of HOL).
\<close>

record Customer =
  id_c :: string
  name :: string
  avatar :: string
  email :: string
  phone :: string
  tags :: "string list"
  lastContacted :: string

text \<open>
  The interface \<open>DateRange\<close>; its field \<open>end\<close> is written \<open>end_d\<close>. Both are
  calendar-day strings of the form YYYY-MM-DD, or empty.
\<close>

record DateRange =
  start :: string
  end_d :: string

text \<open>
  \<open>CustomerFormData\<close>, the value the edit form submits. The fields \<open>email\<close> and
  \<open>phone\<close> carry the suffix \<open>_f\<close> to keep them apart from the fields of \<open>Customer\<close>.
\<close>

record CustomerFormData =
  firstName :: string
  lastName :: string
  email_f :: string
  phone_f :: string
  role :: string

section \<open>Widget reordering\<close>

text \<open>
  \<open>Array.prototype.splice(start, deleteCount, ...items)\<close>, applied to a copy of the array
  as \<open>immutability-helper\<close>'s \<open>$splice\<close> does, for integer arguments. A negative start
  counts from the end; start and the delete count are clamped to the array.
\<close>

definition splice :: "'a list \<Rightarrow> int \<Rightarrow> int \<Rightarrow> 'a list \<Rightarrow> 'a list" where
  "splice xs start_i deleteCount items =
     (let len = int (length xs);
          s = (if start_i < 0 then max (len + start_i) 0 else min start_i len);
          d = min (max deleteCount 0) (len - s)
      in take (nat s) xs @ items @ drop (nat (s + d)) xs)"

text \<open>
  Reading \<open>arr[i]\<close>: \<open>undefined\<close> (here \<open>None\<close>) outside the array.
\<close>

definition index_js :: "'a list \<Rightarrow> int \<Rightarrow> 'a option" where
  "index_js xs i = (if 0 \<le> i \<and> i < int (length xs) then Some (xs ! nat i) else None)"

text \<open>
  \<open>handleReorderWidgets\<close>: the update
  \<open>{$splice: [[dragIndex, 1], [hoverIndex, 0, prevOrder[dragIndex]]]}\<close>. The result is an
  array whose entries are strings or \<open>undefined\<close>, since \<open>prevOrder[dragIndex]\<close> is
  \<open>undefined\<close> for an index outside the array.
\<close>

definition handleReorderWidgets :: "string list \<Rightarrow> int \<Rightarrow> int \<Rightarrow> string option list" where
  "handleReorderWidgets prevOrder dragIndex hoverIndex =
     splice (splice (map Some prevOrder) dragIndex 1 []) hoverIndex 0
       [index_js prevOrder dragIndex]"

text \<open>The list without its entry at position \<open>i\<close>.\<close>

definition remove_nth :: "nat \<Rightarrow> 'a list \<Rightarrow> 'a list" where
  "remove_nth i xs = take i xs @ drop (Suc i) xs"

definition DEFAULT_WIDGET_ORDER :: "string list" where
  "DEFAULT_WIDGET_ORDER = [''stats'', ''line'', ''bar'', ''pie'']"

section \<open>Record Store: edit and create through the form\<close>

text \<open>
  The values \<open>handleModalSubmit\<close> draws from its environment when it creates a record:
  \<open>faker.string.uuid()\<close>, \<open>faker.image.avatar()\<close> and today's date as formatted by
  \<open>toLocaleDateString\<close>.
\<close>

record fresh_values =
  new_uuid :: string
  new_avatar :: string
  today :: string

text \<open>
  \<open>handleModalSubmit\<close> as a function of the state it reads and writes: the record
  list \<open>data\<close> and \<open>editingCustomer\<close> (\<open>None\<close> for \<open>null\<close>). It returns the new
  record list and the new \<open>editingCustomer\<close>.
\<close>

definition handleModalSubmit ::
  "fresh_values \<Rightarrow> CustomerFormData \<Rightarrow> Customer list \<Rightarrow> Customer option
     \<Rightarrow> Customer list \<times> Customer option" where
  "handleModalSubmit fv formData data editingCustomer =
     (case editingCustomer of
        Some e \<Rightarrow>
          (map (\<lambda>c. if id_c c = id_c e
                     then c\<lparr>name := firstName formData @ '' '' @ lastName formData,
                            email := email_f formData,
                            phone := phone_f formData,
                            tags := [role formData]\<rparr>
                     else c) data,
           None)
      | None \<Rightarrow>
          (\<lparr>id_c = new_uuid fv,
            name = firstName formData @ '' '' @ lastName formData,
            avatar = new_avatar fv,
            email = email_f formData,
            phone = phone_f formData,
            tags = [role formData],
            lastContacted = today fv\<rparr> # data,
           None))"

section \<open>Selection: the select-all toggle\<close>

text \<open>
  The body of \<open>handleToggleAll\<close>, as a function of the two values its closure holds:
  \<open>selectedIds\<close>, a JavaScript \<open>Set\<close> of ids (a finite set), and \<open>filteredData\<close>,
  both of the render that created the handler. The result is the set it passes to
  \<open>setSelectedIds\<close>.
\<close>

definition handleToggleAll :: "string fset \<Rightarrow> Customer list \<Rightarrow> string fset" where
  "handleToggleAll selectedIds filteredData =
     (if fcard selectedIds = length filteredData \<and> length filteredData > 0
      then {||}
      else fset_of_list (map id_c filteredData))"

definition isAllSelected :: "string fset \<Rightarrow> Customer list \<Rightarrow> bool" where
  "isAllSelected selectedIds filteredData \<longleftrightarrow>
     length filteredData > 0 \<and> fcard selectedIds = length filteredData"

text \<open>
  What a render of \<open>CustomerTable\<close> hands to the \<open>columns\<close> memo, in which the
  header checkbox and its \<open>onChange={handleToggleAll}\<close> live: the values of
  \<open>selectedIds\<close>, \<open>data.length\<close> and \<open>filteredData\<close>, and the identities of the two
  \<open>Set\<close> objects \<open>selectedIds\<close> and \<open>hiddenColumns\<close>. React compares a dependency
  with \<open>Object.is\<close>, for an object by its identity; every call of a setter with
  \<open>new Set(...)\<close> installs an object with a new identity.
\<close>

record render =
  r_selectedIds :: "string fset"
  r_selectedIds_ref :: nat
  r_hiddenColumns_ref :: nat
  r_data_length :: nat
  r_filteredData :: "Customer list"

text \<open>
  The dependency list of the memo:
  \<open>[selectedIds, data.length, filteredData.length, isAllSelected, hiddenColumns]\<close>. It
  holds the length of \<open>filteredData\<close>, not \<open>filteredData\<close>.
\<close>

definition columns_deps :: "render \<Rightarrow> nat \<times> nat \<times> nat \<times> bool \<times> nat" where
  "columns_deps r =
     (r_selectedIds_ref r, r_data_length r, length (r_filteredData r),
      isAllSelected (r_selectedIds r) (r_filteredData r), r_hiddenColumns_ref r)"

text \<open>
  \<open>useMemo\<close> for \<open>columns\<close>: the render whose closures the columns hold after the
  render \<open>r\<close>, given the one they held before (\<open>None\<close> at the first render). The
  columns are built anew only when a dependency has changed.
\<close>

definition useMemo_columns :: "render option \<Rightarrow> render \<Rightarrow> render" where
  "useMemo_columns held r =
     (case held of
        None \<Rightarrow> r
      | Some p \<Rightarrow> if columns_deps p = columns_deps r then p else r)"

text \<open>
  A change of the header checkbox calls the \<open>handleToggleAll\<close> of the render that the
  columns hold; the result is the new selection.
\<close>

definition header_checkbox_change :: "render \<Rightarrow> string fset" where
  "header_checkbox_change held = handleToggleAll (r_selectedIds held) (r_filteredData held)"

text \<open>Two sample records, used to run the definitions on concrete inputs.\<close>

definition sample_alice :: Customer where
  "sample_alice =
     \<lparr>id_c = ''a1'', name = ''Alice Smith'', avatar = ''a.png'',
      email = ''alice@example.com'', phone = ''555-0100'',
      tags = [''Lead'', ''VIP''], lastContacted = ''Jan 15, 2024''\<rparr>"

definition sample_bob :: Customer where
  "sample_bob =
     \<lparr>id_c = ''b2'', name = ''Bob Jones'', avatar = ''b.png'',
      email = ''bob@example.org'', phone = ''555-0101'',
      tags = [''Partner''], lastContacted = ''Dec 31, 2023''\<rparr>"

definition sample_form :: CustomerFormData where
  "sample_form =
     \<lparr>firstName = ''Alice'', lastName = ''Miller'', email_f = ''am@example.com'',
      phone_f = ''555-0199'', role = ''Customer''\<rparr>"

definition sample_fresh :: fresh_values where
  "sample_fresh = \<lparr>new_uuid = ''u9'', new_avatar = ''n.png'', today = ''Nov 3, 2026''\<rparr>"

section \<open>Record Store: CSV import\<close>

text \<open>
  A row as Papa Parse delivers it with \<open>header: true\<close>: an object from the header's
  column names to the cell texts. A column the file does not have is absent
  (\<open>undefined\<close>, here \<open>None\<close>); an empty cell is the empty string.
\<close>

type_synonym csv_row = "string \<rightharpoonup> string"

text \<open>
  The chain \<open>a || b || ... || fallback\<close> over cells: the first cell that is present and
  not the empty string, else the fallback.
\<close>

fun first_truthy :: "string option list \<Rightarrow> string \<Rightarrow> string" where
  "first_truthy [] fallback = fallback"
| "first_truthy (None # cs) fallback = first_truthy cs fallback"
| "first_truthy (Some s # cs) fallback = (if s \<noteq> [] then s else first_truthy cs fallback)"

text \<open>\<open>s.split(sep)\<close> for a one-character separator.\<close>

fun split_char :: "char \<Rightarrow> string \<Rightarrow> string list" where
  "split_char sep [] = [[]]"
| "split_char sep (x # xs) =
     (if x = sep then [] # split_char sep xs
      else (case split_char sep xs of
              w # ws \<Rightarrow> (x # w) # ws
            | [] \<Rightarrow> [[x]]))"

text \<open>
  \<open>String.prototype.trim\<close>. A string here is a list of 8-bit characters, the code
  units up to 255. Of the white space and line terminators of ECMAScript these seven lie
  in that range: tab, line feed, vertical tab, form feed, carriage return, space and the
  no-break space U+00A0. The others (U+FEFF, U+2028, U+2029 and the further space
  separators) are beyond the characters of the model.
\<close>

definition is_space :: "char \<Rightarrow> bool" where
  "is_space c \<longleftrightarrow>
     c \<in> set [CHR 0x09, CHR 0x0A, CHR 0x0B, CHR 0x0C, CHR 0x0D, CHR '' '', CHR 0xA0]"

definition trim :: "string \<Rightarrow> string" where
  "trim s = rev (dropWhile is_space (rev (dropWhile is_space s)))"

text \<open>
  What the callback draws from its environment for one imported row: from faker an id,
  a first and a last name, an avatar, an email, a phone number and the one element that
  \<open>arrayElements(['Lead', 'New'], {min: 1, max: 1})\<close> picks, and from the clock the
  date of the moment, as \<open>toLocaleDateString\<close> formats it.
\<close>

record row_draw =
  draw_uuid :: string
  draw_firstName :: string
  draw_lastName :: string
  draw_avatar :: string
  draw_email :: string
  draw_phone :: string
  draw_picks_New :: bool
  draw_date :: string

text \<open>The record built for one row inside \<open>results.data.map\<close>.\<close>

definition import_row :: "row_draw \<Rightarrow> csv_row \<Rightarrow> Customer" where
  "import_row d row =
     \<lparr>id_c = draw_uuid d,
      name = first_truthy [row ''name'', row ''Name'', row ''Full Name'']
               (draw_firstName d @ '' '' @ draw_lastName d),
      avatar = first_truthy [row ''avatar''] (draw_avatar d),
      email = first_truthy [row ''email'', row ''Email''] (draw_email d),
      phone = first_truthy [row ''phone'', row ''Phone''] (draw_phone d),
      tags = (case row ''tags'' of
                Some t \<Rightarrow> (if t \<noteq> [] then map trim (split_char CHR '','' t)
                           else [if draw_picks_New d then ''New'' else ''Lead''])
              | None \<Rightarrow> [if draw_picks_New d then ''New'' else ''Lead'']),
      lastContacted = draw_date d\<rparr>"

text \<open>
  The toasts of the import: \<open>Successfully imported n customers\<close>,
  \<open>No valid customer data found in file\<close> and \<open>Failed to parse CSV file\<close>.
\<close>

datatype import_toast = Imported nat | NothingImported | ParseFailed

text \<open>What Papa Parse hands to \<open>handleFileChange\<close>: the \<open>error\<close> callback, or
  \<open>complete\<close> with the data rows (empty lines skipped).\<close>

datatype papa_result = PapaError | PapaComplete "csv_row list"

text \<open>
  The \<open>complete\<close> callback. \<open>draws i\<close> are the draws for the row at index \<open>i\<close>.
  The result is the new record list and the toast. The rows hold strings only, so nothing in the \<open>map\<close> throws and the
  \<open>catch\<close> branch is not reached.
\<close>

definition import_complete ::
  "(nat \<Rightarrow> row_draw) \<Rightarrow> csv_row list \<Rightarrow> Customer list
     \<Rightarrow> Customer list \<times> import_toast" where
  "import_complete draws rows prev =
     (let newCustomers = map (\<lambda>(i, row). import_row (draws i) row)
                           (enumerate 0 rows)
      in if length newCustomers > 0
         then (newCustomers @ prev, Imported (length newCustomers))
         else (prev, NothingImported))"

definition handleFileChange ::
  "(nat \<Rightarrow> row_draw) \<Rightarrow> papa_result \<Rightarrow> Customer list
     \<Rightarrow> Customer list \<times> import_toast" where
  "handleFileChange draws res prev =
     (case res of
        PapaError \<Rightarrow> (prev, ParseFailed)
      | PapaComplete rows \<Rightarrow> import_complete draws rows prev)"

definition sample_draw :: "nat \<Rightarrow> row_draw" where
  "sample_draw i =
     \<lparr>draw_uuid = ''id-'' @ replicate i CHR ''x'', draw_firstName = ''Fay'',
      draw_lastName = ''Ker'', draw_avatar = ''f.png'', draw_email = ''fay@example.com'',
      draw_phone = ''555-0000'', draw_picks_New = (i mod 2 = 1),
      draw_date = ''Nov 3, 2026''\<rparr>"

text \<open>A file with the header \<open>Name,Email\<close> and one data row.\<close>

definition sample_rows :: "csv_row list" where
  "sample_rows = [[''Name'' \<mapsto> ''Ann Lee'', ''Email'' \<mapsto> ''ann@example.com'']]"

section \<open>Strings and numbers\<close>

text \<open>The value of a decimal digit, and of a non-empty string of decimal digits.\<close>

definition digit_of :: "char \<Rightarrow> nat option" where
  "digit_of c =
     (let n = (of_char c :: nat) in if 48 \<le> n \<and> n \<le> 57 then Some (n - 48) else None)"

fun digits_value :: "string \<Rightarrow> nat \<Rightarrow> nat option" where
  "digits_value [] acc = Some acc"
| "digits_value (c # cs) acc =
     (case digit_of c of None \<Rightarrow> None | Some v \<Rightarrow> digits_value cs (10 * acc + v))"

definition parse_nat :: "string \<Rightarrow> nat option" where
  "parse_nat s = (if s = [] then None else digits_value s 0)"

text \<open>
  \<open>s.split(sep)\<close> for a non-empty separator string: the pieces between the
  occurrences of the separator, found from left to right.
\<close>

fun split_str :: "string \<Rightarrow> string \<Rightarrow> string list" where
  "split_str sep [] = [[]]"
| "split_str sep (c # cs) =
     (if sep \<noteq> [] \<and> prefix sep (c # cs)
      then [] # split_str sep (drop (length sep - 1) cs)
      else (case split_str sep cs of
              w # ws \<Rightarrow> (c # w) # ws
            | [] \<Rightarrow> [[c]]))"

text \<open>
  \<open>parseInt(s)\<close> without a radix, for a string that starts with a decimal digit other
  than a leading \<open>0x\<close>: the value of the longest run of digits at the start. (The
  code calls it on a string that starts with \<open>20\<close>.) \<open>None\<close> is \<open>NaN\<close>.
\<close>

definition parseInt :: "string \<Rightarrow> int option" where
  "parseInt s = map_option int (parse_nat (takeWhile (\<lambda>c. digit_of c \<noteq> None) s))"

section \<open>Preference Store: loading\<close>

text \<open>
  The value \<open>JSON.parse\<close> returns. Numbers are restricted to the integers: loading
  only tests a number for being zero. \<open>JObj\<close> holds the own properties of the object; a
  property read takes the first entry under the key.
\<close>

datatype json =
    JNull
  | JBool bool
  | JNum int
  | JStr string
  | JArr "json list"
  | JObj "(string \<times> json) list"

text \<open>
  The preference state of \<open>CustomerTable\<close>, the nine \<open>useState\<close> cells that the load
  effect writes. The setters store whatever value the blob holds, so each cell is a JSON
  value; \<open>hiddenColumns\<close> is a \<open>Set\<close>, given by its elements in insertion order.
  The fields carry the prefix \<open>pref_\<close> to keep them apart from the state variables of
  the same names.
\<close>

record prefs =
  pref_rowsPerPage :: json
  pref_activeRoleFilter :: json
  pref_hiddenColumns :: "json list"
  pref_dateRange :: json
  pref_visibleCharts :: json
  pref_chartTheme :: json
  pref_customColor :: json
  pref_widgetOrder :: json
  pref_widgetSizes :: json

text \<open>The initial values of the nine cells.\<close>

definition default_prefs :: prefs where
  "default_prefs =
     \<lparr>pref_rowsPerPage = JNum 10,
      pref_activeRoleFilter = JStr ''All'',
      pref_hiddenColumns = [JStr ''avatar''],
      pref_dateRange = JObj [(''start'', JStr []), (''end'', JStr [])],
      pref_visibleCharts = JObj [(''stats'', JBool True), (''bar'', JBool True),
                            (''pie'', JBool True), (''line'', JBool True)],
      pref_chartTheme = JStr ''indigo'',
      pref_customColor = JStr ''#4f46e5'',
      pref_widgetOrder = JArr [JStr ''stats'', JStr ''line'', JStr ''bar'', JStr ''pie''],
      pref_widgetSizes = JObj [(''stats'', JStr ''full''), (''line'', JStr ''full''),
                          (''bar'', JStr ''half''), (''pie'', JStr ''half'')]\<rparr>"

text \<open>
  \<open>parsed.key\<close> for a value other than \<open>null\<close>: the property of an object, and
  \<open>undefined\<close> (\<open>None\<close>) otherwise, also on a number, a string, a boolean or an array.
\<close>

fun get_prop :: "json \<Rightarrow> string \<Rightarrow> json option" where
  "get_prop (JObj kvs) key = map_of kvs key"
| "get_prop _ key = None"

text \<open>The truth value of \<open>if (v)\<close>.\<close>

fun truthy :: "json option \<Rightarrow> bool" where
  "truthy None = False"
| "truthy (Some JNull) = False"
| "truthy (Some (JBool b)) = b"
| "truthy (Some (JNum n)) = (n \<noteq> 0)"
| "truthy (Some (JStr s)) = (s \<noteq> [])"
| "truthy (Some (JArr xs)) = True"
| "truthy (Some (JObj kvs)) = True"

text \<open>
  \<open>new Set(v)\<close>: the elements of an array, the characters of a string, and a
  \<open>TypeError\<close> (\<open>None\<close>) for a value that is not iterable. A \<open>Set\<close> keeps one copy of
  equal primitive values; arrays and objects are compared by identity and all kept.
\<close>

fun is_primitive :: "json \<Rightarrow> bool" where
  "is_primitive (JArr xs) = False"
| "is_primitive (JObj kvs) = False"
| "is_primitive _ = True"

definition set_insertions :: "json list \<Rightarrow> json list" where
  "set_insertions xs =
     rev (fold (\<lambda>x acc. if is_primitive x \<and> x \<in> set acc then acc else x # acc) xs [])"

fun new_Set :: "json \<Rightarrow> json list option" where
  "new_Set (JArr xs) = Some (set_insertions xs)"
| "new_Set (JStr s) = Some (set_insertions (map (\<lambda>c. JStr [c]) s))"
| "new_Set _ = None"

fun isArray :: "json option \<Rightarrow> bool" where
  "isArray (Some (JArr xs)) = True"
| "isArray _ = False"

text \<open>
  The body of the \<open>try\<close> block after \<open>JSON.parse\<close>, with its \<open>catch\<close>. Each setter
  call that ran before an exception stays in effect. Reading a property of \<open>null\<close>
  throws at the first line; \<open>new Set\<close> throws on a value that is not iterable, and the
  six lines after it do not run.
\<close>

definition load_parsed :: "json \<Rightarrow> prefs \<Rightarrow> prefs" where
  "load_parsed parsed p0 =
     (if parsed = JNull then p0
      else
        let p1 = (if truthy (get_prop parsed ''rowsPerPage'')
                  then p0\<lparr>pref_rowsPerPage := the (get_prop parsed ''rowsPerPage'')\<rparr> else p0);
            p2 = (if truthy (get_prop parsed ''activeRoleFilter'')
                  then p1\<lparr>pref_activeRoleFilter := the (get_prop parsed ''activeRoleFilter'')\<rparr> else p1)
        in if truthy (get_prop parsed ''hiddenColumns'')
              \<and> new_Set (the (get_prop parsed ''hiddenColumns'')) = None
           then p2
           else
             let p3 = (if truthy (get_prop parsed ''hiddenColumns'')
                       then p2\<lparr>pref_hiddenColumns :=
                                 the (new_Set (the (get_prop parsed ''hiddenColumns'')))\<rparr>
                       else p2);
                 p4 = (if truthy (get_prop parsed ''dateRange'')
                       then p3\<lparr>pref_dateRange := the (get_prop parsed ''dateRange'')\<rparr> else p3);
                 p5 = (if truthy (get_prop parsed ''visibleCharts'')
                       then p4\<lparr>pref_visibleCharts := the (get_prop parsed ''visibleCharts'')\<rparr> else p4);
                 p6 = (if truthy (get_prop parsed ''chartTheme'')
                       then p5\<lparr>pref_chartTheme := the (get_prop parsed ''chartTheme'')\<rparr> else p5);
                 p7 = (if truthy (get_prop parsed ''customColor'')
                       then p6\<lparr>pref_customColor := the (get_prop parsed ''customColor'')\<rparr> else p6);
                 p8 = (if truthy (get_prop parsed ''widgetOrder'') \<and> isArray (get_prop parsed ''widgetOrder'')
                       then p7\<lparr>pref_widgetOrder := the (get_prop parsed ''widgetOrder'')\<rparr> else p7)
             in (if truthy (get_prop parsed ''widgetSizes'')
                 then p8\<lparr>pref_widgetSizes := the (get_prop parsed ''widgetSizes'')\<rparr> else p8))"

text \<open>
  The load effect. \<open>savedPrefs\<close> is what \<open>localStorage.getItem\<close> returns (\<open>None\<close> for
  \<open>null\<close>); \<open>JSON_parse\<close> is the runtime's parser, \<open>None\<close> where it throws a
  \<open>SyntaxError\<close>. The effect starts from the initial values.
\<close>

definition load_preferences :: "(string \<Rightarrow> json option) \<Rightarrow> string option \<Rightarrow> prefs" where
  "load_preferences JSON_parse savedPrefs =
     (case savedPrefs of
        None \<Rightarrow> default_prefs
      | Some s \<Rightarrow>
          if s = [] then default_prefs
          else (case JSON_parse s of
                  None \<Rightarrow> default_prefs
                | Some parsed \<Rightarrow> load_parsed parsed default_prefs))"

text \<open>
  A stored blob \<open>{"rowsPerPage": 25, "hiddenColumns": 5, "chartTheme": "rose"}\<close>, as
  parsed.
\<close>

definition blob_bad_hiddenColumns :: json where
  "blob_bad_hiddenColumns =
     JObj [(''rowsPerPage'', JNum 25), (''hiddenColumns'', JNum 5), (''chartTheme'', JStr ''rose'')]"

text \<open>The same blob with a malformed \<open>rowsPerPage\<close> and a well-formed \<open>hiddenColumns\<close>.\<close>

definition blob_bad_rowsPerPage :: json where
  "blob_bad_rowsPerPage =
     JObj [(''rowsPerPage'', JStr ''many''), (''hiddenColumns'', JArr [JStr ''phone'']),
           (''chartTheme'', JStr ''rose'')]"

section \<open>The JavaScript runtime\<close>

text \<open>
  What the code takes from the runtime and the repository does not fix: the case mapping
  of strings, the parser behind \<open>new Date(string)\<close>, the local time zone and the locale's
  month and year format. \<open>Date_parse s\<close> is the time value of \<open>new Date(s)\<close> in
  milliseconds since the epoch, \<open>None\<close> for an invalid date (time value \<open>NaN\<close>).
  \<open>LocalTZA t isUTC\<close> is the offset of local time from UTC in milliseconds at the
  instant \<open>t\<close>, which is a UTC time value when \<open>isUTC\<close> holds and a local time value
  otherwise, as in ECMAScript; it changes where the zone changes its offset (daylight
  saving). \<open>month_year_label t\<close> is
  \<open>toLocaleString('default', {month: 'short', year: '2-digit'})\<close> of a valid date.
\<close>

record js_runtime =
  toLowerCase :: "string \<Rightarrow> string"
  Date_parse :: "string \<Rightarrow> int option"
  LocalTZA :: "int \<Rightarrow> bool \<Rightarrow> int"
  month_year_label :: "int \<Rightarrow> string"

text \<open>\<open>hay.includes(needle)\<close>: the needle occurs in the hay as a contiguous run.\<close>

fun includes_str :: "string \<Rightarrow> string \<Rightarrow> bool" where
  "includes_str [] needle = (needle = [])"
| "includes_str (h # rest) needle = (prefix needle (h # rest) \<or> includes_str rest needle)"

text \<open>
  \<open>a >= b\<close> and \<open>a <= b\<close> on two \<open>Date\<close> objects compare the time values; a
  comparison with \<open>NaN\<close> is false.
\<close>

fun date_ge :: "int option \<Rightarrow> int option \<Rightarrow> bool" where
  "date_ge (Some a) (Some b) = (a \<ge> b)"
| "date_ge _ _ = False"

fun date_le :: "int option \<Rightarrow> int option \<Rightarrow> bool" where
  "date_le (Some a) (Some b) = (a \<le> b)"
| "date_le _ _ = False"

subsection \<open>Time values and the calendar of ECMAScript\<close>

definition msPerDay :: int where
  "msPerDay = 86400000"

definition Day :: "int \<Rightarrow> int" where
  "Day t = t div msPerDay"

definition TimeWithinDay :: "int \<Rightarrow> int" where
  "TimeWithinDay t = t mod msPerDay"

definition LocalTime :: "js_runtime \<Rightarrow> int \<Rightarrow> int" where
  "LocalTime rt t = t + LocalTZA rt t True"

definition UTC :: "js_runtime \<Rightarrow> int \<Rightarrow> int" where
  "UTC rt t = t - LocalTZA rt t False"

definition TimeClip :: "int \<Rightarrow> int option" where
  "TimeClip t = (if \<bar>t\<bar> \<le> 8640000000000000 then Some t else None)"

definition MakeTime :: "int \<Rightarrow> int \<Rightarrow> int \<Rightarrow> int \<Rightarrow> int" where
  "MakeTime h m s ms = h * 3600000 + m * 60000 + s * 1000 + ms"

definition MakeDate :: "int \<Rightarrow> int \<Rightarrow> int" where
  "MakeDate day time = day * msPerDay + time"

definition DayFromYear :: "int \<Rightarrow> int" where
  "DayFromYear y =
     365 * (y - 1970) + (y - 1969) div 4 - (y - 1901) div 100 + (y - 1601) div 400"

definition InLeapYear :: "int \<Rightarrow> bool" where
  "InLeapYear y \<longleftrightarrow> y mod 4 = 0 \<and> (y mod 100 \<noteq> 0 \<or> y mod 400 = 0)"

text \<open>
  The year of a day number: the largest \<open>y\<close> with \<open>DayFromYear y \<le> d\<close>, found from
  the mean year length of 146097/400 days and one correction step.
\<close>

definition YearFromDay :: "int \<Rightarrow> int" where
  "YearFromDay d =
     (let y = 1970 + (d * 400) div 146097
      in if DayFromYear y > d then y - 1
         else if DayFromYear (y + 1) \<le> d then y + 1
         else y)"

text \<open>The number of days of year \<open>y\<close> before its month \<open>m\<close> (0 for January).\<close>

definition month_start :: "int \<Rightarrow> int \<Rightarrow> int" where
  "month_start y m =
     (let leap = (if InLeapYear y then 1 else 0)
      in if m \<le> 0 then 0
         else if m = 1 then 31
         else [59, 90, 120, 151, 181, 212, 243, 273, 304, 334] ! nat (min m 11 - 2) + leap)"

definition DayWithinYear :: "int \<Rightarrow> int" where
  "DayWithinYear d = d - DayFromYear (YearFromDay d)"

definition MonthFromDay :: "int \<Rightarrow> int" where
  "MonthFromDay d =
     (let y = YearFromDay d; n = DayWithinYear d
      in int (length (filter (\<lambda>m. month_start y m \<le> n) [1, 2, 3, 4, 5, 6, 7, 8, 9, 10, 11])))"

definition DateFromDay :: "int \<Rightarrow> int" where
  "DateFromDay d = DayWithinYear d - month_start (YearFromDay d) (MonthFromDay d) + 1"

text \<open>
  \<open>MakeDay(year, month, date)\<close>: the day number of the first of the month, plus
  \<open>date - 1\<close>; a date outside the month runs over into the neighbouring months.
\<close>

definition MakeDay :: "int \<Rightarrow> int \<Rightarrow> int \<Rightarrow> int" where
  "MakeDay y m dt =
     DayFromYear (y + m div 12) + month_start (y + m div 12) (m mod 12) + dt - 1"

definition days_in_month :: "int \<Rightarrow> int \<Rightarrow> int" where
  "days_in_month y m = (if m = 11 then 31 else month_start y (m + 1) - month_start y m)"

text \<open>
  The time value of midnight UTC of a calendar date (month 1 to 12), \<open>None\<close> for a date
  that is none. Read as a local time value, it is midnight of that date in local time.
\<close>

definition civil_midnight :: "nat \<Rightarrow> nat \<Rightarrow> nat \<Rightarrow> int option" where
  "civil_midnight y m d =
     (if 1 \<le> m \<and> m \<le> 12 \<and> 1 \<le> d \<and> int d \<le> days_in_month (int y) (int m - 1)
      then Some (MakeDate (MakeDay (int y) (int m - 1) (int d)) 0)
      else None)"

text \<open>
  The calendar date that a string of the date-only form YYYY-MM-DD names, as midnight
  UTC of that date: what ECMAScript fixes as the time value of \<open>new Date(s)\<close> for this
  form.
\<close>

definition parse_iso_date :: "string \<Rightarrow> int option" where
  "parse_iso_date s =
     (if length s = 10 \<and> s ! 4 = CHR ''-'' \<and> s ! 7 = CHR ''-''
      then (case (parse_nat (take 4 s), parse_nat (take 2 (drop 5 s)), parse_nat (drop 8 s)) of
              (Some y, Some m, Some d) \<Rightarrow> civil_midnight y m d
            | _ \<Rightarrow> None)
      else None)"

text \<open>The methods of \<open>Date\<close> the code calls, on a time value (\<open>None\<close> for \<open>NaN\<close>).\<close>

definition getDate :: "js_runtime \<Rightarrow> int \<Rightarrow> int" where
  "getDate rt t = DateFromDay (Day (LocalTime rt t))"

definition getMonth :: "js_runtime \<Rightarrow> int \<Rightarrow> int" where
  "getMonth rt t = MonthFromDay (Day (LocalTime rt t))"

definition setDate :: "js_runtime \<Rightarrow> int \<Rightarrow> int \<Rightarrow> int option" where
  "setDate rt tv dt =
     (let t = LocalTime rt tv
      in TimeClip (UTC rt (MakeDate (MakeDay (YearFromDay (Day t)) (MonthFromDay (Day t)) dt)
                                     (TimeWithinDay t))))"

definition setHours :: "js_runtime \<Rightarrow> int option \<Rightarrow> int \<Rightarrow> int \<Rightarrow> int \<Rightarrow> int \<Rightarrow> int option" where
  "setHours rt tv h m s ms =
     (case tv of
        None \<Rightarrow> None
      | Some t0 \<Rightarrow> TimeClip (UTC rt (MakeDate (Day (LocalTime rt t0)) (MakeTime h m s ms))))"

section \<open>Query Engine\<close>

text \<open>The callback of the date-range filter in \<open>filteredData\<close>.\<close>

definition in_date_range :: "js_runtime \<Rightarrow> DateRange \<Rightarrow> Customer \<Rightarrow> bool" where
  "in_date_range rt dateRange item =
     (let itemDate = Date_parse rt (lastContacted item);
          start_date = (if start dateRange \<noteq> [] then Date_parse rt (start dateRange)
                        else Date_parse rt ''1970-01-01'');
          end_date = (if end_d dateRange \<noteq> [] then Date_parse rt (end_d dateRange)
                      else Date_parse rt ''2100-01-01'');
          end_of_day = setHours rt end_date 23 59 59 999
      in date_ge itemDate start_date \<and> date_le itemDate end_of_day)"

text \<open>
  \<open>filteredData\<close>: the three filters, each applied only when its input is set.
\<close>

definition filteredData ::
  "js_runtime \<Rightarrow> Customer list \<Rightarrow> string \<Rightarrow> string \<Rightarrow> DateRange \<Rightarrow> Customer list" where
  "filteredData rt data searchQuery activeRoleFilter dateRange =
     (let r1 = (if searchQuery \<noteq> []
                then filter (\<lambda>item.
                       includes_str (toLowerCase rt (name item)) (toLowerCase rt searchQuery)
                     \<or> includes_str (toLowerCase rt (email item)) (toLowerCase rt searchQuery))
                     data
                else data);
          r2 = (if activeRoleFilter \<noteq> ''All''
                then filter (\<lambda>item. activeRoleFilter \<in> set (tags item)) r1
                else r1)
      in if start dateRange \<noteq> [] \<or> end_d dateRange \<noteq> []
         then filter (in_date_range rt dateRange) r2
         else r2)"




text \<open>
  The final instant of the calendar day that a bound of the form YYYY-MM-DD names:
  23:59:59.999 local time of that date, as a time value.
\<close>

definition end_of_named_day :: "js_runtime \<Rightarrow> string \<Rightarrow> int option" where
  "end_of_named_day rt s =
     (case parse_iso_date s of
        None \<Rightarrow> None
      | Some midnight \<Rightarrow> Some (UTC rt (midnight + (msPerDay - 1))))"

text \<open>
  The date-range condition as the specification words it: the parsed \<open>lastContacted\<close>
  is not before the parsed start and not after the end, an empty start sets no lower
  limit, an empty end sets no upper limit, and a given end includes the entire calendar
  day it names, up to that day's final instant.
\<close>

definition claimed_in_date_range :: "js_runtime \<Rightarrow> DateRange \<Rightarrow> Customer \<Rightarrow> bool" where
  "claimed_in_date_range rt dr item =
     (let itemDate = Date_parse rt (lastContacted item)
      in itemDate \<noteq> None
         \<and> (start dr = [] \<or> date_ge itemDate (Date_parse rt (start dr)))
         \<and> (end_d dr = [] \<or> date_le itemDate (end_of_named_day rt (end_d dr))))"

text \<open>A record last contacted before 1970.\<close>

definition sample_old :: Customer where
  "sample_old =
     \<lparr>id_c = ''o3'', name = ''Old Timer'', avatar = ''o.png'',
      email = ''old@example.net'', phone = ''555-0102'',
      tags = [''Lead''], lastContacted = ''Dec 31, 1969''\<rparr>"

section \<open>A reference runtime\<close>

text \<open>
  One runtime to run the definitions on concrete inputs. It lowers the ASCII letters,
  parses the date-only form YYYY-MM-DD as midnight UTC (as ECMAScript fixes it) and the
  form \<open>Mon D, YYYY\<close> that the application writes into \<open>lastContacted\<close> as local
  midnight, rejects every other string, and labels a month like the English locales do
  (\<open>Jan 24\<close>). The local zone has the fixed offset \<open>tza\<close>, a parameter.
\<close>

definition lower_char :: "char \<Rightarrow> char" where
  "lower_char c =
     (let n = (of_char c :: nat) in if 65 \<le> n \<and> n \<le> 90 then char_of (n + 32) else c)"

definition ascii_toLowerCase :: "string \<Rightarrow> string" where
  "ascii_toLowerCase s = map lower_char s"

definition month_names :: "string list" where
  "month_names = [''Jan'', ''Feb'', ''Mar'', ''Apr'', ''May'', ''Jun'',
                  ''Jul'', ''Aug'', ''Sep'', ''Oct'', ''Nov'', ''Dec'']"

fun index_of :: "'a \<Rightarrow> 'a list \<Rightarrow> nat option" where
  "index_of x [] = None"
| "index_of x (y # ys) = (if x = y then Some 0 else map_option Suc (index_of x ys))"

definition parse_en_US_date :: "int \<Rightarrow> string \<Rightarrow> int option" where
  "parse_en_US_date tza s =
     (case split_char CHR '' '' s of
        [mon, dc, ys] \<Rightarrow>
          (if dc \<noteq> [] \<and> last dc = CHR '',''
           then (case (index_of mon month_names, parse_nat (butlast dc), parse_nat ys) of
                   (Some m, Some d, Some y) \<Rightarrow>
                     (case civil_midnight y (Suc m) d of
                        Some t \<Rightarrow> Some (t - tza)
                      | None \<Rightarrow> None)
                 | _ \<Rightarrow> None)
           else None)
      | _ \<Rightarrow> None)"

definition ref_Date_parse :: "int \<Rightarrow> string \<Rightarrow> int option" where
  "ref_Date_parse tza s =
     (case parse_iso_date s of Some t \<Rightarrow> Some t | None \<Rightarrow> parse_en_US_date tza s)"

definition two_digits :: "nat \<Rightarrow> string" where
  "two_digits n = [char_of (48 + n div 10 mod 10), char_of (48 + n mod 10)]"

definition label_en :: "int \<Rightarrow> int \<Rightarrow> string" where
  "label_en tza t =
     month_names ! nat (MonthFromDay (Day (t + tza))) @ '' ''
       @ two_digits (nat (YearFromDay (Day (t + tza)) mod 100))"

definition ref_runtime :: "int \<Rightarrow> js_runtime" where
  "ref_runtime tza =
     \<lparr>toLowerCase = ascii_toLowerCase, Date_parse = ref_Date_parse tza,
      LocalTZA = (\<lambda>t isUTC. tza), month_year_label = label_en tza\<rparr>"

text \<open>
  Two successive renders: the record list holds Alice and Bob, nothing is selected, and
  the search changes from \<open>alice\<close> to \<open>bob\<close>; no \<open>Set\<close> is replaced between them.
\<close>

definition sample_render_alice :: render where
  "sample_render_alice =
     \<lparr>r_selectedIds = {||}, r_selectedIds_ref = 0, r_hiddenColumns_ref = 0,
      r_data_length = 2,
      r_filteredData = filteredData (ref_runtime 0) [sample_alice, sample_bob] ''alice''
                         ''All'' \<lparr>start = [], end_d = []\<rparr>\<rparr>"

definition sample_render_bob :: render where
  "sample_render_bob =
     \<lparr>r_selectedIds = {||}, r_selectedIds_ref = 0, r_hiddenColumns_ref = 0,
      r_data_length = 2,
      r_filteredData = filteredData (ref_runtime 0) [sample_alice, sample_bob] ''bob''
                         ''All'' \<lparr>start = [], end_d = []\<rparr>\<rparr>"

section \<open>Objects used as dictionaries\<close>

text \<open>
  The aggregations count in an object created by \<open>{}\<close>. Its own properties are kept
  here as a list of keys and values in the order of creation.

  A key that names a property inherited from \<open>Object.prototype\<close> is not a plain
  dictionary key: reading it before it is written gives the inherited function or
  object, and the count built from that is not a number. The aggregations below return
  \<open>None\<close> when such a key occurs; the model does not follow the code there.
\<close>

definition Object_prototype_names :: "string list" where
  "Object_prototype_names =
     [''constructor'', ''hasOwnProperty'', ''isPrototypeOf'', ''propertyIsEnumerable'',
      ''toLocaleString'', ''toString'', ''valueOf'', ''__proto__'',
      ''__defineGetter__'', ''__defineSetter__'', ''__lookupGetter__'', ''__lookupSetter__'']"

definition plain_keys :: "string list \<Rightarrow> bool" where
  "plain_keys ks \<longleftrightarrow> list_all (\<lambda>k. k \<notin> set Object_prototype_names) ks"

text \<open>
  \<open>counts[key] = (counts[key] || 0) + 1\<close>, and likewise
  \<open>if (!counts[key]) counts[key] = 0; counts[key]++\<close>, for a plain key: a new key is
  created at the end with the count 1, an existing count grows by one.
\<close>

fun bump :: "(string \<times> nat) list \<Rightarrow> string \<Rightarrow> (string \<times> nat) list" where
  "bump [] key = [(key, 1)]"
| "bump ((k, n) # rest) key =
     (if k = key then (k, n + 1) # rest else (k, n) # bump rest key)"

text \<open>The count an object holds under a key, 0 for a key it does not have.\<close>

definition cnt :: "(string \<times> nat) list \<Rightarrow> string \<Rightarrow> nat" where
  "cnt c k = (case map_of c k of None \<Rightarrow> 0 | Some n \<Rightarrow> n)"

text \<open>
  An array index is a key that is the decimal writing of an integer from 0 to
  \<open>2\<^sup>3\<^sup>2 - 2\<close>, without a leading zero.
\<close>

definition is_array_index :: "string \<Rightarrow> bool" where
  "is_array_index k =
     (case parse_nat k of
        None \<Rightarrow> False
      | Some n \<Rightarrow> (k = ''0'' \<or> hd k \<noteq> CHR ''0'') \<and> int n < 4294967295)"

definition array_index_value :: "string \<Rightarrow> nat" where
  "array_index_value k = (case parse_nat k of None \<Rightarrow> 0 | Some n \<Rightarrow> n)"

text \<open>
  The order in which an object lists its own keys, from their order of creation: the
  array indices first, ascending by value, then the other keys in order of creation.
\<close>

definition own_keys_order :: "string list \<Rightarrow> string list" where
  "own_keys_order ks =
     sort_key array_index_value (filter is_array_index ks)
       @ filter (\<lambda>k. \<not> is_array_index k) ks"

text \<open>\<open>Object.entries(obj)\<close>: the own keys in that order, each with its value.\<close>

definition Object_entries :: "(string \<times> 'v) list \<Rightarrow> (string \<times> 'v) list" where
  "Object_entries obj = map (\<lambda>k. (k, the (map_of obj k))) (own_keys_order (map fst obj))"

section \<open>Aggregation Engine\<close>

subsection \<open>Summary statistics\<close>

text \<open>
  The result of \<open>stats\<close>; the field \<open>total\<close> is written \<open>total_c\<close>.
\<close>

record stats =
  total_c :: nat
  leads :: nat
  partners :: nat
  recentContacts :: nat

text \<open>
  \<open>stats\<close>. The two calls of \<open>new Date()\<close> read the clock twice: \<open>now\<close> is the first
  reading, and \<open>thirtyDaysAgo\<close> starts from the second, \<open>now2\<close>, before \<open>setDate\<close>
  moves it.
\<close>

definition compute_stats :: "js_runtime \<Rightarrow> int \<Rightarrow> int \<Rightarrow> Customer list \<Rightarrow> stats" where
  "compute_stats rt now now2 data =
     (let thirtyDaysAgo = setDate rt now2 (getDate rt now - 30)
      in \<lparr>total_c = length data,
          leads = length (filter (\<lambda>c. ''Lead'' \<in> set (tags c)) data),
          partners = length (filter (\<lambda>c. ''Partner'' \<in> set (tags c)) data),
          recentContacts =
            length (filter (\<lambda>c. date_ge (Date_parse rt (lastContacted c)) thirtyDaysAgo) data)\<rparr>)"

text \<open>
  The instant 30 days before now: the same local clock time, 30 calendar days earlier.
  In a zone with a fixed offset it is now minus 30 times 86400000 ms.
\<close>

definition thirty_days_before :: "js_runtime \<Rightarrow> int \<Rightarrow> int" where
  "thirty_days_before rt now = UTC rt (LocalTime rt now - 30 * msPerDay)"

text \<open>
  The window of \<open>recentContacts\<close> as the specification words it: the parsed date lies
  between 30 days before now, inclusive, and now.
\<close>

definition claimed_recent :: "js_runtime \<Rightarrow> int \<Rightarrow> Customer \<Rightarrow> bool" where
  "claimed_recent rt now c =
     (case Date_parse rt (lastContacted c) of
        None \<Rightarrow> False
      | Some t \<Rightarrow> thirty_days_before rt now \<le> t \<and> t \<le> now)"

text \<open>The condition the code tests: the parsed date is not before 30 days before now.\<close>

definition recent_since :: "js_runtime \<Rightarrow> int \<Rightarrow> Customer \<Rightarrow> bool" where
  "recent_since rt now c =
     (case Date_parse rt (lastContacted c) of
        None \<Rightarrow> False
      | Some t \<Rightarrow> thirty_days_before rt now \<le> t)"

text \<open>No record is dated after now: the parsed dates, where there are any, are not later.\<close>

definition none_after :: "js_runtime \<Rightarrow> int \<Rightarrow> Customer list \<Rightarrow> bool" where
  "none_after rt now data =
     list_all (\<lambda>c. case Date_parse rt (lastContacted c) of None \<Rightarrow> True | Some t \<Rightarrow> t \<le> now)
       data"


definition sample_new_year :: Customer where
  "sample_new_year =
     \<lparr>id_c = ''n5'', name = ''Ney Year'', avatar = ''n.png'',
      email = ''ny@example.net'', phone = ''555-0104'',
      tags = [''Lead''], lastContacted = ''Jan 1, 2024''\<rparr>"

subsection \<open>Tag distribution\<close>

text \<open>The counting loops of \<open>tagData\<close>: over the records, and over the tags of each.\<close>

definition tag_counts :: "Customer list \<Rightarrow> (string \<times> nat) list" where
  "tag_counts data =
     fold (\<lambda>c counts. fold (\<lambda>tag counts. bump counts tag) (tags c) counts) data []"

text \<open>
  \<open>tagData\<close>: the entries \<open>(name, value)\<close> of the counts, sorted by the comparator
  \<open>b.value - a.value\<close> (the sort of an array is stable), cut to five.
\<close>

definition tagData :: "Customer list \<Rightarrow> (string \<times> nat) list option" where
  "tagData data =
     (if plain_keys (concat (map tags data))
      then Some (take 5 (sort_key (\<lambda>(tag, value). - int value)
                           (Object_entries (tag_counts data))))
      else None)"

text \<open>The elements of a list, each once, in the order of their first occurrence.\<close>

primrec first_occurrences :: "'a list \<Rightarrow> 'a list" where
  "first_occurrences [] = []"
| "first_occurrences (x # xs) = x # filter (\<lambda>y. y \<noteq> x) (first_occurrences xs)"

text \<open>
  The tabulation as the specification words it: each distinct tag with the number of
  records whose tags contain it, in first-encountered order, stably sorted descending by
  that number, cut to five.
\<close>

definition claimed_tagData :: "Customer list \<Rightarrow> (string \<times> nat) list" where
  "claimed_tagData data =
     take 5 (sort_key (\<lambda>(tag, value). - int value)
       (map (\<lambda>t. (t, length (filter (\<lambda>c. t \<in> set (tags c)) data)))
            (first_occurrences (concat (map tags data)))))"

text \<open>
  What the code tabulates: each distinct tag with the number of its occurrences in all
  tag lists, in the order in which the object lists its keys, stably sorted descending by
  that number, cut to five.
\<close>

definition occurrence_tabulation :: "string list \<Rightarrow> (string \<times> nat) list" where
  "occurrence_tabulation all_tags =
     take 5 (sort_key (\<lambda>(tag, value). - int value)
       (map (\<lambda>t. (t, count_list all_tags t)) (own_keys_order (first_occurrences all_tags))))"

definition with_tags :: "string list \<Rightarrow> Customer" where
  "with_tags ts =
     \<lparr>id_c = ''t'', name = ''T'', avatar = [], email = [], phone = [], tags = ts,
      lastContacted = ''Jan 15, 2024''\<rparr>"

subsection \<open>Activity by month\<close>

text \<open>The counting loop of \<open>activityData\<close>; a record whose date is invalid is skipped.\<close>

definition activity_counts :: "js_runtime \<Rightarrow> Customer list \<Rightarrow> (string \<times> nat) list" where
  "activity_counts rt data =
     fold (\<lambda>c counts.
             case Date_parse rt (lastContacted c) of
               None \<Rightarrow> counts
             | Some t \<Rightarrow> bump counts (month_year_label rt t))
          data []"

text \<open>
  The key reconstructed from a label: \<open>[month, year] = name.split(" '")\<close>, the month
  index of \<open>new Date(`${month} 1, 2000`)\<close>, the year \<open>parseInt(`20${year}`)\<close>, and
  \<open>fullYear * 100 + monthIdx\<close>. Without a second piece \<open>year\<close> is \<open>undefined\<close> and
  the template writes the word. \<open>None\<close> is \<open>NaN\<close>.
\<close>

definition sort_value :: "js_runtime \<Rightarrow> string \<Rightarrow> int option" where
  "sort_value rt label =
     (let pieces = split_str [CHR '' '', CHR 0x27] label;
          month = hd pieces;
          year = (if length pieces > 1 then pieces ! 1 else ''undefined'');
          monthIdx = map_option (getMonth rt) (Date_parse rt (month @ '' 1, 2000''));
          fullYear = parseInt (''20'' @ year)
      in case (fullYear, monthIdx) of
           (Some y, Some m) \<Rightarrow> Some (y * 100 + m)
         | _ \<Rightarrow> None)"

text \<open>The labels of the records with a valid date, in the order of the records.\<close>

definition activity_labels :: "js_runtime \<Rightarrow> Customer list \<Rightarrow> string list" where
  "activity_labels rt data =
     map (month_year_label rt) (List.map_filter (\<lambda>c. Date_parse rt (lastContacted c)) data)"

text \<open>
  \<open>activityData\<close>: the entries \<open>(name, value, sortValue)\<close>, sorted by the comparator
  \<open>a.sortValue - b.sortValue\<close>. A comparison with \<open>NaN\<close> counts as equal: when every
  key is \<open>NaN\<close> the stable sort leaves the array as it is. When some keys are \<open>NaN\<close>
  and some are numbers the comparator need not be consistent and the order is left to the
  implementation; the result is \<open>None\<close> then, as for a label that is not a plain key.
\<close>

definition activityData ::
  "js_runtime \<Rightarrow> Customer list \<Rightarrow> (string \<times> nat \<times> int option) list option" where
  "activityData rt data =
     (if \<not> plain_keys (activity_labels rt data) then None
      else
        let chartData = map (\<lambda>(label, value). (label, value, sort_value rt label))
                          (Object_entries (activity_counts rt data))
        in if list_all (\<lambda>(label, value, sortValue). sortValue \<noteq> None) chartData
           then Some (sort_key (\<lambda>(label, value, sortValue). the sortValue) chartData)
           else if list_all (\<lambda>(label, value, sortValue). sortValue = None) chartData
           then Some chartData
           else None)"

text \<open>
  The order the specification asks for: ascending by the calendar year times 100 plus
  the month index of the bucket.
\<close>

definition chronological_key :: "js_runtime \<Rightarrow> int \<Rightarrow> int" where
  "chronological_key rt t =
     YearFromDay (Day (LocalTime rt t)) * 100 + MonthFromDay (Day (LocalTime rt t))"

definition sample_jan26 :: Customer where
  "sample_jan26 =
     \<lparr>id_c = ''j6'', name = ''Jan Uary'', avatar = ''j.png'',
      email = ''jan@example.net'', phone = ''555-0105'',
      tags = [''Lead''], lastContacted = ''Jan 10, 2026''\<rparr>"

definition sample_dec25 :: Customer where
  "sample_dec25 =
     \<lparr>id_c = ''d7'', name = ''Dee Cember'', avatar = ''d.png'',
      email = ''dec@example.net'', phone = ''555-0106'',
      tags = [''Partner''], lastContacted = ''Dec 20, 2025''\<rparr>"

definition sample_unparseable :: Customer where
  "sample_unparseable =
     \<lparr>id_c = ''x8'', name = ''No Date'', avatar = ''x.png'',
      email = ''x@example.net'', phone = ''555-0107'',
      tags = [''Lead''], lastContacted = ''soon''\<rparr>"

section \<open>Theorems\<close>

lemma splice_remove:
  assumes "i < length xs"
  shows "splice xs (int i) 1 [] = remove_nth i xs"
  using assms by (simp add: splice_def remove_nth_def Let_def min_def nat_add_distrib)

lemma splice_insert:
  assumes "j \<le> length ys"
  shows "splice ys (int j) 0 [v] = take j ys @ v # drop j ys"
  using assms by (simp add: splice_def Let_def min_def)

lemma reorder_explicit:
  assumes "i < length xs" "j < length xs"
  shows "handleReorderWidgets xs (int i) (int j) =
           take j (remove_nth i (map Some xs)) @ Some (xs ! i) # drop j (remove_nth i (map Some xs))"
proof -
  have len: "length (remove_nth i (map Some xs)) = length xs - 1"
    using assms by (simp add: remove_nth_def)
  have j: "j \<le> length (remove_nth i (map Some xs))"
    using assms len by simp
  have "index_js xs (int i) = Some (xs ! i)"
    using assms by (simp add: index_js_def)
  moreover have "splice (map Some xs) (int i) 1 [] = remove_nth i (map Some xs)"
    using assms by (simp add: splice_remove)
  ultimately show ?thesis
    using splice_insert [OF j] by (simp add: handleReorderWidgets_def)
qed

lemma remove_nth_insert:
  assumes "j \<le> length ys"
  shows "remove_nth j (take j ys @ v # drop j ys) = ys"
  using assms by (simp add: remove_nth_def min_def)

lemma remove_nth_map: "remove_nth i (map f xs) = map f (remove_nth i xs)"
  by (simp add: remove_nth_def take_map drop_map)

text \<open>
  C8. For a widget order and indices \<open>fromIndex\<close>, \<open>toIndex\<close> within its bounds,
  reordering keeps the length, puts the element that stood at \<open>fromIndex\<close> at position
  \<open>toIndex\<close>, and leaves the other elements in their relative order: the result without
  position \<open>toIndex\<close> is the old order without position \<open>fromIndex\<close>. Moving index 0 to
  index 2 in [stats, line, bar, pie] gives [line, bar, stats, pie].
\<close>

theorem reorder_moves_element:
  assumes "fromIndex < length order" and "toIndex < length order"
  shows "length (handleReorderWidgets order (int fromIndex) (int toIndex)) = length order
       \<and> handleReorderWidgets order (int fromIndex) (int toIndex) ! toIndex
           = Some (order ! fromIndex)
       \<and> remove_nth toIndex (handleReorderWidgets order (int fromIndex) (int toIndex))
           = map Some (remove_nth fromIndex order)
       \<and> handleReorderWidgets DEFAULT_WIDGET_ORDER 0 2
           = map Some [''line'', ''bar'', ''stats'', ''pie'']"
proof -
  let ?ys = "remove_nth fromIndex (map Some order)"
  have len: "length ?ys = length order - 1"
    using assms by (simp add: remove_nth_def)
  have j: "toIndex \<le> length ?ys"
    using assms len by simp
  have eq: "handleReorderWidgets order (int fromIndex) (int toIndex)
              = take toIndex ?ys @ Some (order ! fromIndex) # drop toIndex ?ys"
    using assms by (rule reorder_explicit)
  have a: "length (handleReorderWidgets order (int fromIndex) (int toIndex)) = length order"
    using assms len j by (simp add: eq)
  have b: "handleReorderWidgets order (int fromIndex) (int toIndex) ! toIndex
             = Some (order ! fromIndex)"
    using j by (simp add: eq nth_append)
  have c: "remove_nth toIndex (handleReorderWidgets order (int fromIndex) (int toIndex))
             = map Some (remove_nth fromIndex order)"
    using remove_nth_insert [OF j] by (simp add: eq remove_nth_map)
  have d: "handleReorderWidgets DEFAULT_WIDGET_ORDER 0 2
             = map Some [''line'', ''bar'', ''stats'', ''pie'']"
    by (simp add: handleReorderWidgets_def DEFAULT_WIDGET_ORDER_def splice_def index_js_def
        Let_def)
  from a b c d show ?thesis by simp
qed

theorem reorder_moves_element_witness:
  "length (handleReorderWidgets [''stats'', ''line'', ''bar'', ''pie''] 3 1) = 4
   \<and> handleReorderWidgets [''stats'', ''line'', ''bar'', ''pie''] 3 1 ! 1 = Some ''pie''
   \<and> remove_nth 1 (handleReorderWidgets [''stats'', ''line'', ''bar'', ''pie''] 3 1)
       = map Some [''stats'', ''line'', ''bar'']"
  using reorder_moves_element [of 3 "[''stats'', ''line'', ''bar'', ''pie'']" 1]
  by (simp add: remove_nth_def)

text \<open>
  C9. When a record is being edited, submitting the form keeps the number of records;
  every record whose id is the edited record's id gets as its tags the one-element list
  holding the role chosen in the form, whatever tags it had, and keeps its id, avatar and
  lastContacted; every other record is unchanged.
\<close>

theorem edit_submit_replaces_tags:
  assumes "editingCustomer = Some e" and "i < length data"
  shows "length (fst (handleModalSubmit fv formData data editingCustomer)) = length data
       \<and> (if id_c (data ! i) = id_c e
          then tags (fst (handleModalSubmit fv formData data editingCustomer) ! i)
                 = [role formData]
             \<and> id_c (fst (handleModalSubmit fv formData data editingCustomer) ! i)
                 = id_c (data ! i)
             \<and> avatar (fst (handleModalSubmit fv formData data editingCustomer) ! i)
                 = avatar (data ! i)
             \<and> lastContacted (fst (handleModalSubmit fv formData data editingCustomer) ! i)
                 = lastContacted (data ! i)
          else fst (handleModalSubmit fv formData data editingCustomer) ! i = data ! i)"
  using assms by (simp add: handleModalSubmit_def)

theorem edit_submit_replaces_tags_witness:
  "length (fst (handleModalSubmit sample_fresh sample_form [sample_bob, sample_alice]
      (Some sample_alice))) = 2
   \<and> tags (fst (handleModalSubmit sample_fresh sample_form [sample_bob, sample_alice]
      (Some sample_alice)) ! 1) = [''Customer'']
   \<and> avatar (fst (handleModalSubmit sample_fresh sample_form [sample_bob, sample_alice]
      (Some sample_alice)) ! 1) = ''a.png''
   \<and> fst (handleModalSubmit sample_fresh sample_form [sample_bob, sample_alice]
      (Some sample_alice)) ! 0 = sample_bob"
  using edit_submit_replaces_tags [of "Some sample_alice" sample_alice 1
      "[sample_bob, sample_alice]" sample_fresh sample_form]
    edit_submit_replaces_tags [of "Some sample_alice" sample_alice 0
      "[sample_bob, sample_alice]" sample_fresh sample_form]
  by (simp add: sample_alice_def sample_bob_def sample_form_def)

text \<open>
  The body of the select-all handler looks only at the two sizes: given a non-empty view,
  it empties the selection when the selection has as many ids as the view has records,
  whichever ids it held, and otherwise returns the ids of the records of the view.
\<close>

lemma handleToggleAll_sizes:
  assumes "view \<noteq> []"
  shows "(if fcard selectedIds = length view
          then handleToggleAll selectedIds view = {||}
          else handleToggleAll selectedIds view = fset_of_list (map id_c view))
       \<and> isAllSelected selectedIds view = (fcard selectedIds = length view)"
  using assms by (auto simp add: handleToggleAll_def isAllSelected_def)

text \<open>
  C10, at the failing input. The record list holds Alice and Bob and nothing is
  selected. With the search \<open>alice\<close> the view is [Alice]; the search changes to
  \<open>bob\<close> and the view is [Bob]. No dependency of the \<open>columns\<close> memo has changed (the
  view has one record as before), so the header checkbox keeps the handler of the
  earlier render. Its change compares the sizes 0 and 1 and selects the id of Alice,
  who is not in the view; the ids of the filtered records are the id of Bob.
\<close>

theorem header_checkbox_selects_earlier_view:
  "r_filteredData sample_render_alice = [sample_alice]
   \<and> r_filteredData sample_render_bob = [sample_bob]
   \<and> columns_deps sample_render_bob = columns_deps sample_render_alice
   \<and> useMemo_columns (Some (useMemo_columns None sample_render_alice)) sample_render_bob
       = sample_render_alice
   \<and> header_checkbox_change
         (useMemo_columns (Some (useMemo_columns None sample_render_alice)) sample_render_bob)
       = {|''a1''|}
   \<and> handleToggleAll (r_selectedIds sample_render_bob) (r_filteredData sample_render_bob)
       = {|''b2''|}"
proof -
  have a: "r_filteredData sample_render_alice = [sample_alice]"
    unfolding sample_render_alice_def by simp code_simp
  have b: "r_filteredData sample_render_bob = [sample_bob]"
    unfolding sample_render_bob_def by simp code_simp
  have c: "fcard ({||} :: string fset) = 0"
    by (simp add: fcard_fempty)
  have sa: "r_selectedIds sample_render_alice = {||}" "r_selectedIds sample_render_bob = {||}"
    by (simp_all add: sample_render_alice_def sample_render_bob_def)
  have d: "columns_deps sample_render_bob = columns_deps sample_render_alice"
    by (simp add: columns_deps_def a b sa isAllSelected_def c)
       (simp add: sample_render_alice_def sample_render_bob_def)
  have m: "useMemo_columns (Some (useMemo_columns None sample_render_alice)) sample_render_bob
             = sample_render_alice"
    by (simp add: useMemo_columns_def d)
  have h: "header_checkbox_change sample_render_alice = {|''a1''|}"
    by (simp add: header_checkbox_change_def handleToggleAll_def a sa c sample_alice_def)
  have t: "handleToggleAll (r_selectedIds sample_render_bob) (r_filteredData sample_render_bob)
             = {|''b2''|}"
    by (simp add: handleToggleAll_def b sa c sample_bob_def)
  from a b d m h t show ?thesis by simp
qed

subsection \<open>CSV import\<close>

lemma enumerate_Nil_iff: "enumerate n xs = [] \<longleftrightarrow> xs = []"
  by (cases xs) simp_all

lemma import_complete_nonempty:
  assumes "rows \<noteq> []"
  shows "import_complete draws rows prev =
           (map (\<lambda>(i, row). import_row (draws i) row) (enumerate 0 rows) @ prev,
            Imported (length rows))"
  using assms by (simp add: import_complete_def Let_def enumerate_Nil_iff)

lemma import_complete_empty: "import_complete draws [] prev = (prev, NothingImported)"
  by (simp add: import_complete_def)

lemma import_row_nth:
  assumes "i < length rows"
  shows "map (\<lambda>(i, row). import_row (draws i) row) (enumerate 0 rows) ! i
           = import_row (draws i) (rows ! i)"
  using assms by (simp add: nth_enumerate_eq)

text \<open>
  C6. For the rows of a parsed file the import has two outcomes and nothing between
  them. With no row, the toast is the nothing-imported one and the record list is
  returned as it was. With at least one row, the record list is the old one with one new
  record per row in front, in the rows' order, and the toast reports the number of rows.
  The record of a row takes the date of the import as lastContacted; its name is the first
  non-empty cell among name, Name and Full Name, else the synthesized first and last
  name; email and phone likewise come from their cells or are synthesized; and without a
  non-empty tags cell its tags are the one drawn fallback tag.
\<close>

theorem import_all_or_nothing:
  assumes "i < length rows"
  shows "import_complete draws [] prev = (prev, NothingImported)
       \<and> snd (import_complete draws rows prev) = Imported (length rows)
       \<and> length (fst (import_complete draws rows prev)) = length rows + length prev
       \<and> drop (length rows) (fst (import_complete draws rows prev)) = prev
       \<and> fst (import_complete draws rows prev) ! i = import_row (draws i) (rows ! i)
       \<and> lastContacted (import_row (draws i) (rows ! i)) = draw_date (draws i)
       \<and> id_c (import_row (draws i) (rows ! i)) = draw_uuid (draws i)
       \<and> (if (rows ! i) ''name'' \<in> {None, Some []} \<and> (rows ! i) ''Name'' \<in> {None, Some []}
             \<and> (rows ! i) ''Full Name'' \<in> {None, Some []}
           then name (import_row (draws i) (rows ! i))
                  = draw_firstName (draws i) @ '' '' @ draw_lastName (draws i)
           else name (import_row (draws i) (rows ! i)) \<noteq> [])
       \<and> (if (rows ! i) ''email'' \<in> {None, Some []} \<and> (rows ! i) ''Email'' \<in> {None, Some []}
           then email (import_row (draws i) (rows ! i)) = draw_email (draws i)
           else email (import_row (draws i) (rows ! i)) \<noteq> [])
       \<and> (if (rows ! i) ''phone'' \<in> {None, Some []} \<and> (rows ! i) ''Phone'' \<in> {None, Some []}
           then phone (import_row (draws i) (rows ! i)) = draw_phone (draws i)
           else phone (import_row (draws i) (rows ! i)) \<noteq> [])
       \<and> (if (rows ! i) ''tags'' \<in> {None, Some []}
           then tags (import_row (draws i) (rows ! i))
                  = [if draw_picks_New (draws i) then ''New'' else ''Lead'']
           else tags (import_row (draws i) (rows ! i))
                  = map trim (split_char CHR '','' (the ((rows ! i) ''tags''))))"
proof -
  from assms have ne: "rows \<noteq> []" by auto
  let ?new = "map (\<lambda>(i, row). import_row (draws i) row) (enumerate 0 rows)"
  have eq: "import_complete draws rows prev = (?new @ prev, Imported (length rows))"
    using ne by (rule import_complete_nonempty)
  have a: "import_complete draws [] prev = (prev, NothingImported)"
    by (rule import_complete_empty)
  have b: "snd (import_complete draws rows prev) = Imported (length rows)"
    by (simp add: eq)
  have c: "length (fst (import_complete draws rows prev)) = length rows + length prev"
    by (simp add: eq)
  have c': "drop (length rows) (fst (import_complete draws rows prev)) = prev"
    by (simp add: eq)
  have e: "fst (import_complete draws rows prev) ! i = import_row (draws i) (rows ! i)"
    using assms import_row_nth [OF assms, of draws] by (simp add: eq nth_append)
  have f: "lastContacted (import_row (draws i) (rows ! i)) = draw_date (draws i)"
    by (simp add: import_row_def)
  have g: "id_c (import_row (draws i) (rows ! i)) = draw_uuid (draws i)"
    by (simp add: import_row_def)
  have h: "if (rows ! i) ''name'' \<in> {None, Some []} \<and> (rows ! i) ''Name'' \<in> {None, Some []}
             \<and> (rows ! i) ''Full Name'' \<in> {None, Some []}
           then name (import_row (draws i) (rows ! i))
                  = draw_firstName (draws i) @ '' '' @ draw_lastName (draws i)
           else name (import_row (draws i) (rows ! i)) \<noteq> []"
    by (cases "(rows ! i) ''name''"; cases "(rows ! i) ''Name''";
        cases "(rows ! i) ''Full Name''") (simp_all add: import_row_def)
  have k: "if (rows ! i) ''tags'' \<in> {None, Some []}
           then tags (import_row (draws i) (rows ! i))
                  = [if draw_picks_New (draws i) then ''New'' else ''Lead'']
           else tags (import_row (draws i) (rows ! i))
                  = map trim (split_char CHR '','' (the ((rows ! i) ''tags'')))"
    by (cases "(rows ! i) ''tags''") (simp_all add: import_row_def)
  have m: "if (rows ! i) ''email'' \<in> {None, Some []} \<and> (rows ! i) ''Email'' \<in> {None, Some []}
           then email (import_row (draws i) (rows ! i)) = draw_email (draws i)
           else email (import_row (draws i) (rows ! i)) \<noteq> []"
    by (cases "(rows ! i) ''email''"; cases "(rows ! i) ''Email''")
       (simp_all add: import_row_def)
  have p: "if (rows ! i) ''phone'' \<in> {None, Some []} \<and> (rows ! i) ''Phone'' \<in> {None, Some []}
           then phone (import_row (draws i) (rows ! i)) = draw_phone (draws i)
           else phone (import_row (draws i) (rows ! i)) \<noteq> []"
    by (cases "(rows ! i) ''phone''"; cases "(rows ! i) ''Phone''")
       (simp_all add: import_row_def)
  from a b c c' e f g h m p k show ?thesis by blast
qed

theorem import_all_or_nothing_witness:
  "import_complete sample_draw [] [sample_bob] = ([sample_bob], NothingImported)
   \<and> snd (import_complete sample_draw sample_rows [sample_bob]) = Imported 1
   \<and> fst (import_complete sample_draw sample_rows [sample_bob]) ! 0
       = \<lparr>id_c = ''id-'', name = ''Ann Lee'', avatar = ''f.png'', email = ''ann@example.com'',
           phone = ''555-0000'', tags = [''Lead''], lastContacted = ''Nov 3, 2026''\<rparr>
   \<and> drop 1 (fst (import_complete sample_draw sample_rows [sample_bob]))
       = [sample_bob]"
proof -
  have r: "import_row (sample_draw 0) (sample_rows ! 0)
             = \<lparr>id_c = ''id-'', name = ''Ann Lee'', avatar = ''f.png'',
                email = ''ann@example.com'', phone = ''555-0000'', tags = [''Lead''],
                lastContacted = ''Nov 3, 2026''\<rparr>"
    by (simp add: import_row_def sample_draw_def sample_rows_def)
  show ?thesis
    using import_all_or_nothing [of 0 sample_rows sample_draw "[sample_bob]"] r
    by (simp add: sample_rows_def)
qed

subsection \<open>Preference loading\<close>

text \<open>
  C7, at the failing input. The stored blob parses; its \<open>hiddenColumns\<close> is the number
  5. \<open>rowsPerPage\<close> is loaded, \<open>new Set(5)\<close> throws, and \<open>chartTheme\<close> keeps its initial
  value \<open>indigo\<close> although the blob holds the well-formed value \<open>rose\<close>. A malformed
  \<open>rowsPerPage\<close> in the same place blocks nothing: there \<open>chartTheme\<close> is loaded.
  A missing key and a blob that does not parse give the initial values.
\<close>

theorem load_blocked_by_hiddenColumns:
  "load_parsed blob_bad_hiddenColumns default_prefs = default_prefs\<lparr>pref_rowsPerPage := JNum 25\<rparr>
   \<and> pref_chartTheme (load_parsed blob_bad_hiddenColumns default_prefs) = JStr ''indigo''
   \<and> get_prop blob_bad_hiddenColumns ''chartTheme'' = Some (JStr ''rose'')
   \<and> pref_chartTheme (load_parsed blob_bad_rowsPerPage default_prefs) = JStr ''rose''
   \<and> load_preferences (\<lambda>s. Some blob_bad_hiddenColumns) (Some ''blob'')
       = default_prefs\<lparr>pref_rowsPerPage := JNum 25\<rparr>
   \<and> load_preferences (\<lambda>s. Some blob_bad_hiddenColumns) None = default_prefs
   \<and> load_preferences (\<lambda>s. None) (Some ''{'') = default_prefs"
  by (simp add: load_parsed_def load_preferences_def blob_bad_hiddenColumns_def
      blob_bad_rowsPerPage_def default_prefs_def set_insertions_def)

subsection \<open>The calendar\<close>

lemma DayFromYear_bounds:
  "146097 * q - 506 \<le> 400 * DayFromYear (1970 + q)
   \<and> 400 * DayFromYear (1970 + q) \<le> 146097 * q + 589"
  unfolding DayFromYear_def by (simp; linarith)

text \<open>\<open>YearFromDay\<close> brackets the day between the starts of two successive years.\<close>

lemma YearFromDay_bracket:
  "DayFromYear (YearFromDay d) \<le> d \<and> d < DayFromYear (YearFromDay d + 1)"
proof -
  define q where "q = (d * 400) div 146097"
  have q1: "146097 * q \<le> 400 * d" and q2: "400 * d < 146097 * q + 146097"
    unfolding q_def by linarith+
  note b0 = DayFromYear_bounds [of q]
  note bm = DayFromYear_bounds [of "q - 1"]
  note b1 = DayFromYear_bounds [of "q + 1"]
  note b2 = DayFromYear_bounds [of "q + 2"]
  have e: "1970 + q - 1 = 1970 + (q - 1)" "1970 + q + 1 = 1970 + (q + 1)"
    "1970 + q + 1 + 1 = 1970 + (q + 2)" "1970 + q - 1 + 1 = 1970 + q"
    by simp_all
  show ?thesis
    unfolding YearFromDay_def Let_def q_def [symmetric]
    using q1 q2 b0 bm b1 b2 by (auto simp: e)
qed

lemma setHours_end_of_day:
  "setHours rt (Some e) 23 59 59 999
     = TimeClip (UTC rt (Day (LocalTime rt e) * msPerDay + (msPerDay - 1)))"
  by (simp add: setHours_def MakeDate_def MakeTime_def msPerDay_def)

lemma parse_iso_date_midnight:
  assumes "parse_iso_date s = Some m"
  shows "m mod msPerDay = 0"
  using assms
  by (auto simp: parse_iso_date_def civil_midnight_def MakeDate_def
      split: if_splits option.splits)

subsection \<open>Query Engine\<close>




text \<open>
  What the date-range step computes, for every runtime: the record passes exactly when
  its \<open>lastContacted\<close> parses to a time \<open>t\<close>, the lower bound (the start, or the
  literal 1970-01-01 for an empty start) parses to \<open>s\<close>, the upper bound (the end, or
  the literal 2100-01-01 for an empty end) parses to \<open>e\<close>, and \<open>s \<le> t \<le> u\<close>, where
  \<open>u\<close> is 23:59:59.999 local time of the local day in which \<open>e\<close> lies.
\<close>

lemma in_date_range_unfolded:
  "in_date_range rt dr item \<longleftrightarrow>
     (\<exists>t s e u. Date_parse rt (lastContacted item) = Some t
        \<and> Date_parse rt (if start dr = [] then ''1970-01-01'' else start dr) = Some s
        \<and> Date_parse rt (if end_d dr = [] then ''2100-01-01'' else end_d dr) = Some e
        \<and> TimeClip (UTC rt (Day (LocalTime rt e) * msPerDay + (msPerDay - 1))) = Some u
        \<and> s \<le> t \<and> t \<le> u)"
proof -
  let ?it = "Date_parse rt (lastContacted item)"
  let ?s = "Date_parse rt (if start dr = [] then ''1970-01-01'' else start dr)"
  let ?e = "Date_parse rt (if end_d dr = [] then ''2100-01-01'' else end_d dr)"
  have def: "in_date_range rt dr item
               \<longleftrightarrow> date_ge ?it ?s \<and> date_le ?it (setHours rt ?e 23 59 59 999)"
    by (simp add: in_date_range_def Let_def)
  show ?thesis
  proof (cases ?it)
    case None
    then show ?thesis by (simp add: def)
  next
    case it: (Some t)
    show ?thesis
    proof (cases ?s)
      case None
      then show ?thesis by (simp add: def it)
    next
      case s: (Some s)
      show ?thesis
      proof (cases ?e)
        case None
        then show ?thesis by (simp add: def it s setHours_def)
      next
        case e: (Some e)
        have "setHours rt ?e 23 59 59 999
                = TimeClip (UTC rt (Day (LocalTime rt e) * msPerDay + (msPerDay - 1)))"
          by (simp only: e setHours_end_of_day)
        then show ?thesis
          by (cases "TimeClip (UTC rt (Day (LocalTime rt e) * msPerDay + (msPerDay - 1)))")
             (simp_all add: def it s e)
      qed
    qed
  qed
qed

text \<open>
  Where the code does include the day the end names: in a zone at a fixed offset at or
  east of UTC (less than a day), for an end of the form YYYY-MM-DD that the runtime
  parses as ECMAScript fixes it, the upper bound is the final instant of the named day.
\<close>

lemma end_day_included_east_of_UTC:
  assumes tz: "\<forall>t u. LocalTZA rt t u = z" and z: "0 \<le> z" "z < msPerDay"
    and p: "Date_parse rt s = parse_iso_date s"
  shows "setHours rt (Date_parse rt s) 23 59 59 999
           = (case end_of_named_day rt s of None \<Rightarrow> None | Some u \<Rightarrow> TimeClip u)"
proof (cases "parse_iso_date s")
  case None
  then show ?thesis by (simp add: p setHours_def end_of_named_day_def)
next
  case (Some m)
  define k where "k = m div msPerDay"
  have m: "m = k * msPerDay"
    using parse_iso_date_midnight [OF Some] div_mult_mod_eq [of m msPerDay]
    by (simp add: k_def)
  have pos: "0 < msPerDay" by (simp add: msPerDay_def)
  have "(k * msPerDay + z) div msPerDay = k"
    using z pos by (simp add: div_pos_pos_trivial)
  then have d: "Day (LocalTime rt m) = k"
    using tz by (simp add: Day_def LocalTime_def m)
  show ?thesis
    unfolding p Some setHours_end_of_day d
    using tz by (simp add: end_of_named_day_def Some UTC_def m)
qed

text \<open>
  An empty bound is a fixed date, not the absence of a limit: with an empty start a
  record last contacted on Dec 31, 1969 is rejected. The program writes no such date.
\<close>

lemma empty_start_is_1970:
  "\<not> in_date_range (ref_runtime 0) \<lparr>start = [], end_d = ''2024-01-31''\<rparr> sample_old
   \<and> claimed_in_date_range (ref_runtime 0) \<lparr>start = [], end_d = ''2024-01-31''\<rparr> sample_old"
  by code_simp

text \<open>
  C2, at the failing input. Five hours west of UTC, with no start and the end 2024-01-15,
  a record last contacted on Jan 15, 2024 lies within the calendar day that the end
  names, and the code rejects it. The end is parsed as midnight UTC, which is 19:00 of
  Jan 14 in local time; \<open>setHours\<close> moves it to 23:59:59.999 of Jan 14, one
  millisecond before the local midnight to which the record's date is parsed. The final
  instant of the named day is a day later.
\<close>

theorem end_day_rejected_west_of_UTC:
  "\<not> in_date_range (ref_runtime (- 18000000)) \<lparr>start = [], end_d = ''2024-01-15''\<rparr>
       sample_alice
   \<and> claimed_in_date_range (ref_runtime (- 18000000)) \<lparr>start = [], end_d = ''2024-01-15''\<rparr>
       sample_alice
   \<and> Date_parse (ref_runtime (- 18000000)) (lastContacted sample_alice) = Some 1705294800000
   \<and> setHours (ref_runtime (- 18000000))
         (Date_parse (ref_runtime (- 18000000)) ''2024-01-15'') 23 59 59 999
       = Some 1705294799999
   \<and> end_of_named_day (ref_runtime (- 18000000)) ''2024-01-15'' = Some 1705381199999"
  by code_simp

text \<open>
  The same step in other zones. At UTC the record of Jan 15 passes with the start and
  the end 2024-01-15. Eight hours east of UTC the start 2024-01-15 is 08:00 local time,
  and the record of Jan 15, parsed as local midnight, is rejected.
\<close>

lemma date_range_off_UTC:
  "in_date_range (ref_runtime 0) \<lparr>start = ''2024-01-15'', end_d = ''2024-01-15''\<rparr>
       sample_alice
   \<and> in_date_range (ref_runtime 28800000) \<lparr>start = [], end_d = ''2024-01-15''\<rparr>
       sample_alice
   \<and> \<not> in_date_range (ref_runtime 28800000) \<lparr>start = ''2024-01-15'', end_d = []\<rparr>
       sample_alice"
  by code_simp

subsection \<open>Summary statistics\<close>

lemma MonthFromDay_range: "0 \<le> MonthFromDay d \<and> MonthFromDay d \<le> 11"
proof -
  have "length (filter P [1, 2, 3, 4, 5, 6, 7, 8, 9, 10, 11::int]) \<le> 11" for P
    using length_filter_le [of P "[1, 2, 3, 4, 5, 6, 7, 8, 9, 10, 11::int]"] by simp
  then show ?thesis
    unfolding MonthFromDay_def Let_def by (simp del: filter.simps)
qed

lemma MakeDay_of_day:
  "MakeDay (YearFromDay d) (MonthFromDay d) (DateFromDay d + k) = d + k"
proof -
  have m: "MonthFromDay d div 12 = 0" "MonthFromDay d mod 12 = MonthFromDay d"
    using MonthFromDay_range [of d] by simp_all
  show ?thesis
    by (simp add: MakeDay_def m DateFromDay_def DayWithinYear_def)
qed

lemma setDate_30:
  assumes "Day (LocalTime rt now) = Day (LocalTime rt now2)"
  shows "setDate rt now2 (getDate rt now - 30) = TimeClip (thirty_days_before rt now2)"
proof -
  let ?d = "Day (LocalTime rt now2)"
  let ?w = "TimeWithinDay (LocalTime rt now2)"
  have a: "MakeDay (YearFromDay ?d) (MonthFromDay ?d) (getDate rt now - 30) = ?d - 30"
    using MakeDay_of_day [of ?d "- 30"] assms by (simp add: getDate_def)
  have b: "?d * msPerDay + ?w = LocalTime rt now2"
    by (simp add: Day_def TimeWithinDay_def)
  have "MakeDate (MakeDay (YearFromDay ?d) (MonthFromDay ?d) (getDate rt now - 30)) ?w
          = MakeDate (?d - 30) ?w"
    by (simp only: a)
  also have "\<dots> = (?d * msPerDay + ?w) - 30 * msPerDay"
    by (simp add: MakeDate_def algebra_simps)
  also have "\<dots> = LocalTime rt now2 - 30 * msPerDay"
    by (simp only: b)
  finally show ?thesis
    by (simp add: setDate_def Let_def thirty_days_before_def)
qed

lemma thirty_days_before_fixed_offset:
  assumes "\<forall>t u. LocalTZA rt t u = z"
  shows "thirty_days_before rt now = now - 30 * msPerDay"
  using assms by (simp add: thirty_days_before_def UTC_def LocalTime_def)

text \<open>
  What \<open>recentContacts\<close> counts. When both clock readings fall on the same local day
  and 30 days before the second reading is a time value, it is the number of records
  whose \<open>lastContacted\<close> parses to a time not before 30 days before that reading. The
  code tests no upper end.
\<close>

lemma recentContacts_since:
  assumes "Day (LocalTime rt now) = Day (LocalTime rt now2)"
    and "\<bar>thirty_days_before rt now2\<bar> \<le> 8640000000000000"
  shows "recentContacts (compute_stats rt now now2 data)
           = length (filter (recent_since rt now2) data)"
proof -
  have t: "setDate rt now2 (getDate rt now - 30) = Some (thirty_days_before rt now2)"
    using assms by (simp add: setDate_30 TimeClip_def)
  have "date_ge (Date_parse rt (lastContacted c)) (Some (thirty_days_before rt now2))
          = recent_since rt now2 c" for c
    by (cases "Date_parse rt (lastContacted c)") (simp_all add: recent_since_def)
  then show ?thesis
    by (simp add: compute_stats_def t)
qed

text \<open>
  On a record list in which no record is dated after now, the count is the one the
  specification words: the records within the 30 days up to now. That is so for the
  dates the program itself writes, which are past dates and the date of the day.
\<close>

lemma recentContacts_without_future_dates:
  assumes "Day (LocalTime rt now) = Day (LocalTime rt now2)"
    and "\<bar>thirty_days_before rt now2\<bar> \<le> 8640000000000000"
    and "none_after rt now2 data"
  shows "recentContacts (compute_stats rt now now2 data)
           = length (filter (claimed_recent rt now2) data)"
proof -
  have "filter (recent_since rt now2) data = filter (claimed_recent rt now2) data"
  proof (intro filter_cong refl)
    fix c assume "c \<in> set data"
    with assms(3) show "recent_since rt now2 c = claimed_recent rt now2 c"
      by (auto simp: none_after_def list_all_iff recent_since_def claimed_recent_def
          split: option.splits)
  qed
  with recentContacts_since [OF assms(1,2)] show ?thesis by simp
qed

text \<open>
  At midnight UTC of Jan 31, 2024 the record of Jan 1, exactly 30 days before, is
  counted, and the record of Dec 31, 31 days before, is not.
\<close>

lemma recentContacts_30_and_31_days:
  "recentContacts (compute_stats (ref_runtime 0) 1706659200000 1706659200000
       [sample_new_year, sample_bob, sample_alice]) = 2
   \<and> Date_parse (ref_runtime 0) (lastContacted sample_new_year)
       = Some (1706659200000 - 30 * msPerDay)
   \<and> Date_parse (ref_runtime 0) (lastContacted sample_bob)
       = Some (1706659200000 - 31 * msPerDay)
   \<and> filter (claimed_recent (ref_runtime 0) 1706659200000)
         [sample_new_year, sample_bob, sample_alice] = [sample_new_year, sample_alice]"
  by code_simp


subsection \<open>Counting in an object\<close>

lemma keys_bump:
  "map fst (bump c k) = (if k \<in> set (map fst c) then map fst c else map fst c @ [k])"
  by (induction c k rule: bump.induct) auto

lemma map_of_bump:
  "map_of (bump c k) k' =
     (if k' = k then Some (case map_of c k of None \<Rightarrow> 1 | Some n \<Rightarrow> Suc n) else map_of c k')"
  by (induction c k rule: bump.induct) auto

lemma set_first_occurrences: "set (first_occurrences xs) = set xs"
  by (induction xs) auto

lemma distinct_first_occurrences: "distinct (first_occurrences xs)"
  by (induction xs) (auto simp: set_first_occurrences)

lemma keys_fold_bump:
  "map fst (fold (\<lambda>k c. bump c k) ks c)
     = map fst c @ filter (\<lambda>k. k \<notin> set (map fst c)) (first_occurrences ks)"
proof (induction ks arbitrary: c)
  case Nil
  then show ?case by simp
next
  case (Cons k ks)
  show ?case
  proof (cases "k \<in> set (map fst c)")
    case True
    have "filter (\<lambda>x. x \<noteq> k \<and> x \<notin> set (map fst c)) (first_occurrences ks)
            = filter (\<lambda>x. x \<notin> set (map fst c)) (first_occurrences ks)"
      using True by (intro filter_cong) auto
    with True show ?thesis
      by (simp add: Cons.IH keys_bump del: set_map)
  next
    case False
    have "filter (\<lambda>x. x \<notin> set (map fst c) \<and> x \<noteq> k) (first_occurrences ks)
            = filter (\<lambda>x. x \<noteq> k \<and> x \<notin> set (map fst c)) (first_occurrences ks)"
      by (intro filter_cong) auto
    with False show ?thesis
      by (simp add: Cons.IH keys_bump del: set_map)
  qed
qed

lemma cnt_bump: "cnt (bump c k) k' = cnt c k' + (if k' = k then 1 else 0)"
  by (simp add: cnt_def map_of_bump split: option.splits)

lemma cnt_fold_bump: "cnt (fold (\<lambda>k c. bump c k) ks c) k' = cnt c k' + count_list ks k'"
  by (induction ks arbitrary: c) (auto simp: cnt_bump)

lemma assoc_list_by_keys:
  "distinct (map fst c) \<Longrightarrow> map (\<lambda>k. (k, the (map_of c k))) (map fst c) = c"
proof (induction c)
  case Nil
  then show ?case by simp
next
  case (Cons a c)
  obtain k v where a: "a = (k, v)" by (cases a)
  from Cons.prems a have k: "k \<notin> fst ` set c" and d: "distinct (map fst c)"
    by auto
  have "map (\<lambda>x. (x, the (map_of (a # c) x))) (map fst c)
          = map (\<lambda>x. (x, the (map_of c x))) (map fst c)"
    using k a by (intro map_cong) auto
  with Cons.IH [OF d] a show ?case by simp
qed

lemma fold_bump_counts:
  "fold (\<lambda>k c. bump c k) ks [] = map (\<lambda>k. (k, count_list ks k)) (first_occurrences ks)"
proof -
  let ?c = "fold (\<lambda>k c. bump c k) ks []"
  have keys: "map fst ?c = first_occurrences ks"
    using keys_fold_bump [of ks "[]"] by simp
  then have "distinct (map fst ?c)"
    by (simp add: distinct_first_occurrences)
  then have "?c = map (\<lambda>k. (k, the (map_of ?c k))) (first_occurrences ks)"
    using assoc_list_by_keys [of ?c] keys by simp
  also have "\<dots> = map (\<lambda>k. (k, count_list ks k)) (first_occurrences ks)"
  proof (intro map_cong refl)
    fix k assume "k \<in> set (first_occurrences ks)"
    then have "k \<in> fst ` set ?c"
      using keys by (metis set_map)
    then obtain n where n: "map_of ?c k = Some n"
      by (metis domD dom_map_of_conv_image_fst)
    then have "n = cnt ?c k" by (simp add: cnt_def)
    also have "\<dots> = count_list ks k"
      using cnt_fold_bump [of ks "[]" k] by (simp add: cnt_def)
    finally show "(k, the (map_of ?c k)) = (k, count_list ks k)"
      using n by simp
  qed
  finally show ?thesis .
qed

lemma set_own_keys_order: "set (own_keys_order ks) = set ks"
  by (auto simp: own_keys_order_def)

lemma Object_entries_tabulated:
  "Object_entries (map (\<lambda>k. (k, f k)) ks) = map (\<lambda>k. (k, f k)) (own_keys_order ks)"
proof -
  have m: "map fst (map (\<lambda>k. (k, f k)) ks) = ks"
    by (simp add: comp_def)
  have "map_of (map (\<lambda>k. (k, f k)) ks) k = Some (f k)" if "k \<in> set ks" for k
    using that by (induction ks) auto
  then show ?thesis
    unfolding Object_entries_def m
    by (intro map_cong refl) (simp add: set_own_keys_order)
qed

lemma fold_over_concat: "fold f (concat xss) acc = fold (\<lambda>xs. fold f xs) xss acc"
  by (induction xss arbitrary: acc) simp_all

lemma tag_counts_fold:
  "tag_counts data = fold (\<lambda>k c. bump c k) (concat (map tags data)) []"
  by (simp add: tag_counts_def fold_over_concat fold_map comp_def)

lemma tagData_eq:
  assumes "plain_keys (concat (map tags data))"
  shows "tagData data = Some (occurrence_tabulation (concat (map tags data)))"
  using assms
  by (simp add: tagData_def occurrence_tabulation_def tag_counts_fold fold_bump_counts
      Object_entries_tabulated)

subsection \<open>Tag distribution\<close>

lemma occurrence_tabulation_length: "length (occurrence_tabulation ks) \<le> 5"
  by (simp add: occurrence_tabulation_def)

lemma occurrence_tabulation_sorted:
  "sorted (map (\<lambda>(tag, value). - int value) (occurrence_tabulation ks))"
  unfolding occurrence_tabulation_def take_map [symmetric]
  by (intro sorted_wrt_take sorted_sort_key)

lemma occurrence_tabulation_entries:
  assumes "(tag, value) \<in> set (occurrence_tabulation ks)"
  shows "value = count_list ks tag \<and> value > 0"
proof -
  from assms have "(tag, value) \<in> set (map (\<lambda>t. (t, count_list ks t))
      (own_keys_order (first_occurrences ks)))"
    unfolding occurrence_tabulation_def by (auto dest: in_set_takeD)
  then have "value = count_list ks tag" and "tag \<in> set ks"
    by (auto simp: set_own_keys_order set_first_occurrences)
  then show ?thesis
    using count_list_0_iff [of ks tag] by auto
qed

text \<open>
  C4, as the claim states it, fails on two counts. Of the records with the tags [B], [7]
  and [A, A] the code gives A the count 2, the number of occurrences, where one record
  contains A; and it lists 7 before B although B was met first, since an object lists
  its array-index keys first.
\<close>

theorem tagData_counts_occurrences_not_records:
  "tagData [with_tags [''B''], with_tags [''7''], with_tags [''A'', ''A'']]
     = Some [(''A'', 2), (''7'', 1), (''B'', 1)]
   \<and> claimed_tagData [with_tags [''B''], with_tags [''7''], with_tags [''A'', ''A'']]
     = [(''B'', 1), (''7'', 1), (''A'', 1)]"
  by code_simp

text \<open>
  C4, amended. For every record list in which no tag is the name of a property inherited
  from \<open>Object.prototype\<close>, the tabulation is: each distinct tag with the number of its
  occurrences in the tag lists of all records, the tags listed as the object lists its
  keys (array indices ascending first, then the other tags in first-encountered order),
  stably sorted descending by count and cut to five. So it has at most five entries, its
  counts never ascend, and each count is the positive number of occurrences of its tag.
\<close>

theorem tagData_tabulates_occurrences:
  assumes "plain_keys (concat (map tags data))"
  shows "tagData data = Some (occurrence_tabulation (concat (map tags data)))
       \<and> length (occurrence_tabulation (concat (map tags data))) \<le> 5
       \<and> sorted (map (\<lambda>(tag, value). - int value)
                   (occurrence_tabulation (concat (map tags data))))
       \<and> list_all (\<lambda>(tag, value). value = count_list (concat (map tags data)) tag \<and> value > 0)
             (occurrence_tabulation (concat (map tags data)))"
proof -
  have "list_all (\<lambda>(tag, value). value = count_list (concat (map tags data)) tag \<and> value > 0)
          (occurrence_tabulation (concat (map tags data)))"
    unfolding list_all_iff using occurrence_tabulation_entries by fastforce
  with tagData_eq [OF assms] occurrence_tabulation_length occurrence_tabulation_sorted
  show ?thesis by blast
qed

theorem tagData_tabulates_occurrences_witness:
  "plain_keys (concat (map tags [with_tags [''A''], with_tags [''A'', ''B'']]))
   \<and> tagData [with_tags [''A''], with_tags [''A'', ''B'']] = Some [(''A'', 2), (''B'', 1)]
   \<and> occurrence_tabulation [''B'', ''10'', ''9'', ''C'', ''9'', ''D'', ''E'']
       = [(''9'', 2), (''10'', 1), (''B'', 1), (''C'', 1), (''D'', 1)]"
proof -
  have p: "plain_keys (concat (map tags [with_tags [''A''], with_tags [''A'', ''B'']]))"
    by code_simp
  have t: "occurrence_tabulation (concat (map tags [with_tags [''A''], with_tags [''A'', ''B'']]))
             = [(''A'', 2), (''B'', 1)]"
    by code_simp
  have e: "occurrence_tabulation [''B'', ''10'', ''9'', ''C'', ''9'', ''D'', ''E'']
             = [(''9'', 2), (''10'', 1), (''B'', 1), (''C'', 1), (''D'', 1)]"
    by code_simp
  have "tagData [with_tags [''A''], with_tags [''A'', ''B'']] = Some [(''A'', 2), (''B'', 1)]"
    using tagData_tabulates_occurrences [OF p] unfolding t by blast
  with p e show ?thesis by blast
qed

subsection \<open>Activity by month\<close>

lemma activity_counts_fold_acc:
  "fold (\<lambda>c counts. case Date_parse rt (lastContacted c) of
                        None \<Rightarrow> counts
                      | Some t \<Rightarrow> bump counts (month_year_label rt t)) data acc
     = fold (\<lambda>k c. bump c k) (activity_labels rt data) acc"
  by (induction data arbitrary: acc)
     (auto simp: activity_labels_def List.map_filter_simps split: option.splits)

text \<open>
  The buckets before the sort: one for each label of a record with a valid date, holding
  the number of such records with that label. A record whose date is invalid is in none.
\<close>

lemma activity_chartData:
  "map (\<lambda>(label, value). (label, value, sort_value rt label))
       (Object_entries (activity_counts rt data))
     = map (\<lambda>l. (l, count_list (activity_labels rt data) l, sort_value rt l))
           (own_keys_order (first_occurrences (activity_labels rt data)))"
  by (simp add: activity_counts_def activity_counts_fold_acc fold_bump_counts
      Object_entries_tabulated comp_def)

lemma split_str_without_separator:
  assumes "\<not> includes_str s sep"
  shows "split_str sep s = [s]"
  using assms by (induction s) auto

text \<open>
  The key of a label in which the separator \<open>" '"\<close> does not occur: the year part is
  the constant 20, whatever the runtime's parser makes of the month.
\<close>

lemma sort_value_without_separator:
  assumes "\<not> includes_str label [CHR '' '', CHR 0x27]"
  shows "sort_value rt label
           = map_option (\<lambda>m. 20 * 100 + m)
               (map_option (getMonth rt) (Date_parse rt (label @ '' 1, 2000'')))"
proof -
  have y: "parseInt (''20'' @ ''undefined'') = Some 20"
    by code_simp
  show ?thesis
    using y by (simp add: sort_value_def split_str_without_separator [OF assms] Let_def
        split: option.splits)
qed

text \<open>
  C5, at the failing input. In the reference runtime the records dated Jan 10, 2026 and
  Dec 20, 2025 fall into the buckets \<open>Jan 26\<close> and \<open>Dec 25\<close>. The labels have no
  \<open>" '"\<close>, no year is reconstructed, and the result lists January 2026 before
  December 2025, against the ascending order of year times 100 plus month index, which
  is 202511 before 202600. The record with the unparseable date is dropped.
\<close>

theorem activityData_not_chronological:
  "activityData (ref_runtime 0) [sample_jan26, sample_unparseable, sample_dec25]
     = Some [(''Jan 26'', 1, None), (''Dec 25'', 1, None)]
   \<and> map (\<lambda>c. map_option (chronological_key (ref_runtime 0))
               (Date_parse (ref_runtime 0) (lastContacted c)))
         [sample_jan26, sample_unparseable, sample_dec25]
     = [Some 202600, None, Some 202511]
   \<and> \<not> includes_str ''Jan 26'' [CHR '' '', CHR 0x27]
   \<and> \<not> includes_str ''Dec 25'' [CHR '' '', CHR 0x27]"
  by code_simp

end
